theory Spec2Isabelle
  imports Complex_Main
begin

section \<open>Data of the map application\<close>

text \<open>
  The view bounds handed to \<open>searchSegments\<close> by \<open>ButtonOverlay.handleAction\<close>
  (App.js, lines 203-209). Degrees are JavaScript numbers; they are modelled as reals,
  and the only arithmetic done on them is one addition of 360.
\<close>

record bounds =
  south :: real
  west :: real
  north :: real
  east :: real

text \<open>One point of an element's geometry in the response body: \<open>{lon, lat}\<close>.\<close>

record point =
  lon :: real
  lat :: real

text \<open>
  A tag object is kept as the list of its key/value entries, in the order of the
  response body.
\<close>

type_synonym tags = "(string \<times> string) list"

text \<open>One entry of \<open>response.data.elements\<close>: the fields \<open>id\<close>, \<open>geometry\<close>, \<open>tags\<close>.\<close>

record element =
  elem_id :: int
  elem_geometry :: "point list"
  elem_tags :: tags

text \<open>
  The object built for each element (App.js, lines 62-70). A coordinate is the
  two-element array \<open>[point.lon, point.lat]\<close>; it is modelled as a pair, index 0 being
  \<open>fst\<close> and index 1 being \<open>snd\<close>.
\<close>

record line_string =
  geometry_type :: string
  coordinates :: "(real \<times> real) list"

record feature =
  feature_type :: string
  geometry :: line_string
  properties :: tags
  feature_id :: int

text \<open>
  The four \<open>useState\<close> cells of \<open>App\<close> (App.js, lines 7-10). \<open>null\<close> is \<open>None\<close>.
\<close>

record view_state =
  segments :: "feature list"
  selectedSegmentId :: "int option"
  loading :: bool
  errorMessage :: string

definition App_initial :: view_state where
  "App_initial =
     \<lparr>segments = [], selectedSegmentId = None, loading = False, errorMessage = ''''\<rparr>"

text \<open>
  What the awaited \<open>axios.get\<close> and the code of the \<open>try\<close> block deliver: either the
  list \<open>response.data.elements\<close>, or a thrown error of which the handler reads only
  \<open>error.code\<close> (absent: \<open>None\<close>). The request library reports its own timeout with
  the code \<open>ECONNABORTED\<close>.
\<close>

datatype response = Resolved "element list" | Rejected "string option"

section \<open>searchSegments\<close>

text \<open>Lines 17-23: the destructured bounds after the two conditional additions.\<close>

definition searchSegments_bbox :: "bounds \<Rightarrow> bounds" where
  "searchSegments_bbox b =
     \<lparr>south = south b,
      west = (if west b < - 180 then west b + 360 else west b),
      north = north b,
      east = (if east b < - 180 then east b + 360 else east b)\<rparr>"

text \<open>
  Lines 24-55: the template literal. Its first line holds the four interpolated numbers;
  \<open>query_lines\<close> are the lines after it, each preceded by a line feed in the text.
  How JavaScript prints a number is not part of the program: it is the parameter \<open>shw\<close>.
\<close>

definition query_head :: string where
  "query_head = CHR 0x0A # ''        [out:json][timeout:15][bbox:''"

definition query_lines :: "string list" where
  \<open>query_lines =
     ['''',
      ''        ('',
      ''          wr["leisure"="park"];'',
      ''          wr["leisure"="track"];'',
      ''          wr["leisure"="nature_reserve"];  '',
      ''        )->.areas;'',
      '''',
      ''        ('',
      ''          .areas map_to_area;'',
      ''        )->.areas;'',
      '''',
      ''        ('',
      ''          way["highway"="pedestrian"];'',
      ''          way["highway"="footpath"];'',
      ''          way["highway"="footway"];'',
      ''          way["designated"];'',
      ''          way["yes"];'',
      ''          way["foot"="use_sidepath"];'',
      ''        )->.segments;'',
      '''',
      ''        ('',
      ''          way.segments;'',
      ''          -'',
      ''          way.segments["access"="private"];'',
      ''        )->.segments;'',
      ''          '',
      ''        way.segments(area.areas)->.segments;'',
      '''',
      ''        .segments out geom 100;'',
      ''    '']\<close>

definition query_rest :: string where
  "query_rest = concat (map ((#) (CHR 0x0A)) query_lines)"

definition searchSegments_query :: "(real \<Rightarrow> string) \<Rightarrow> bounds \<Rightarrow> string" where
  "searchSegments_query shw b =
     (let b' = searchSegments_bbox b
      in query_head @ shw (south b') @ '', '' @ shw (west b') @ '', '' @ shw (north b')
           @ '', '' @ shw (east b') @ ''];'' @ query_rest)"

text \<open>Line 56: the request URL; \<open>enc\<close> stands for \<open>encodeURIComponent\<close>.\<close>

definition searchSegments_url ::
  "(string \<Rightarrow> string) \<Rightarrow> (real \<Rightarrow> string) \<Rightarrow> bounds \<Rightarrow> string" where
  "searchSegments_url enc shw b =
     ''https://overpass-api.de/api/interpreter?data='' @ enc (searchSegments_query shw b)"

text \<open>Lines 62-70: the function mapped over the elements.\<close>

definition feature_of :: "element \<Rightarrow> feature" where
  "feature_of el =
     \<lparr>feature_type = ''Feature'',
      geometry = \<lparr>geometry_type = ''LineString'',
                  coordinates = map (\<lambda>p. (lon p, lat p)) (elem_geometry el)\<rparr>,
      properties = elem_tags el,
      feature_id = elem_id el\<rparr>"

text \<open>Lines 13-14: the updates made before the request is awaited.\<close>

definition searchSegments_begin :: "view_state \<Rightarrow> view_state" where
  "searchSegments_begin s = (s\<lparr>loading := True\<rparr>)\<lparr>errorMessage := ''''\<rparr>"

text \<open>Lines 58-82: the updates made once the request has settled.\<close>

definition searchSegments_settle :: "response \<Rightarrow> view_state \<Rightarrow> view_state" where
  "searchSegments_settle r s =
     (case r of
        Resolved els \<Rightarrow> (s\<lparr>segments := map feature_of els\<rparr>)\<lparr>loading := False\<rparr>
      | Rejected code \<Rightarrow>
          (if code = Some ''ECONNABORTED''
           then s\<lparr>errorMessage := ''Query timed out. Try reducing the search area.''\<rparr>
           else s\<lparr>errorMessage := ''An error occurred while fetching the data.''\<rparr>)
          \<lparr>loading := False\<rparr>)"

text \<open>One whole call of \<open>searchSegments\<close> with no other update while it waits.\<close>

definition searchSegments :: "response \<Rightarrow> view_state \<Rightarrow> view_state" where
  "searchSegments r s = searchSegments_settle r (searchSegments_begin s)"

section \<open>The other handlers\<close>

text \<open>Lines 85-89.\<close>

definition clearSegments :: "view_state \<Rightarrow> view_state" where
  "clearSegments s =
     ((s\<lparr>segments := []\<rparr>)\<lparr>selectedSegmentId := None\<rparr>)\<lparr>errorMessage := ''''\<rparr>"

text \<open>Lines 91-93.\<close>

definition closeErrorMessage :: "view_state \<Rightarrow> view_state" where
  "closeErrorMessage s = s\<lparr>errorMessage := ''''\<rparr>"

text \<open>
  Lines 165-171: the click handler that \<open>onEachFeature\<close> attaches to a feature. The
  handler is a closure: the \<open>selectedSegmentId\<close> it compares with is the constant of
  the render that built it, here the first argument, not the state it later runs in.
  Its comment reads "Deselect if clicking the same segment".
\<close>

definition onEachFeature_click :: "int option \<Rightarrow> feature \<Rightarrow> view_state \<Rightarrow> view_state" where
  "onEachFeature_click closed_over f s =
     (if closed_over = Some (feature_id f)
      then s\<lparr>selectedSegmentId := None\<rparr>
      else s\<lparr>selectedSegmentId := Some (feature_id f)\<rparr>)"

text \<open>
  Line 182: the function passed to the popup as \<open>onClose\<close>. Whether the map library
  calls it when a popup closes is the library's matter; the facts proved of all runs
  below hold of the runs without this event as well.
\<close>

definition Popup_onClose :: "view_state \<Rightarrow> view_state" where
  "Popup_onClose s = s\<lparr>selectedSegmentId := None\<rparr>"

section \<open>What is rendered\<close>

text \<open>Lines 223 and 240: the \<open>disabled\<close> attributes of the two buttons.\<close>

definition search_disabled :: "view_state \<Rightarrow> bool" where
  "search_disabled s = (length (segments s) > 0 \<or> loading s)"

definition clear_disabled :: "view_state \<Rightarrow> bool" where
  "clear_disabled s = (length (segments s) = 0 \<or> loading s)"

text \<open>
  Line 176 guards the popup with \<open>selectedSegmentId &&\<close>: the value is tested for
  truthiness, and both \<open>null\<close> and the number 0 are falsy.
\<close>

definition truthy_id :: "int option \<Rightarrow> bool" where
  "truthy_id x = (case x of None \<Rightarrow> False | Some n \<Rightarrow> n \<noteq> 0)"

text \<open>
  Lines 176-191. \<open>segments.find\<close> returns the first segment with the selected id, or
  \<open>undefined\<close>, and reading \<open>.geometry\<close> of \<open>undefined\<close> throws; so does indexing
  \<open>coordinates[0]\<close> when it is \<open>undefined\<close>. The position is
  \<open>[coordinates[0][1], coordinates[0][0]]\<close>; the content is the \<open>properties\<close> object,
  which the page prints with \<open>JSON.stringify\<close>.
\<close>

datatype js_error = TypeError

record popup =
  popup_position :: "real \<times> real"
  popup_content :: tags

definition Popup_render :: "view_state \<Rightarrow> js_error + popup option" where
  "Popup_render s =
     (if \<not> truthy_id (selectedSegmentId s) then Inr None
      else case find (\<lambda>segment. Some (feature_id segment) = selectedSegmentId s) (segments s) of
             None \<Rightarrow> Inl TypeError
           | Some segment \<Rightarrow>
               (case coordinates (geometry segment) of
                  [] \<Rightarrow> Inl TypeError
                | c # _ \<Rightarrow>
                    Inr (Some \<lparr>popup_position = (snd c, fst c),
                               popup_content = properties segment\<rparr>)))"

section \<open>The page as a transition system\<close>

text \<open>
  Lines 153-175: the \<open>GeoJSON\<close> layer is rendered while \<open>segments.length > 0\<close>. The
  map library builds the layer when the component is mounted: it takes \<open>data\<close> and
  calls \<open>onEachFeature\<close> for each feature then, and never again while the component
  stays mounted. So a mounted layer is the features it was built from together with
  the selection its click handlers have closed over.
\<close>

type_synonym layer = "feature list \<times> int option"

definition GeoJSON_layer :: "layer option \<Rightarrow> view_state \<Rightarrow> layer option" where
  "GeoJSON_layer mounted s =
     (if length (segments s) > 0
      then (case mounted of
              None \<Rightarrow> Some (segments s, selectedSegmentId s)
            | Some l \<Rightarrow> Some l)
      else None)"

text \<open>
  The state of the page is the view state, the mounted layer and the number of requests
  that have been sent and have not settled. An event is one thing the rendered page
  lets happen: a click on an enabled button, on a feature of the mounted layer, on the
  cross of a shown error banner, the closing of a shown popup, or the settling of a
  pending request. \<open>fire\<close> is \<open>None\<close> where the page does not offer the event. After
  each event the page is rendered again from the new view state.
\<close>

record app =
  view :: view_state
  layer :: "layer option"
  in_flight :: nat

definition App_start :: app where
  "App_start = \<lparr>view = App_initial, layer = None, in_flight = 0\<rparr>"

definition rendered :: "app \<Rightarrow> view_state \<Rightarrow> nat \<Rightarrow> app" where
  "rendered a s n = \<lparr>view = s, layer = GeoJSON_layer (layer a) s, in_flight = n\<rparr>"

datatype event =
    Click_search bounds
  | Settle response
  | Click_clear
  | Click_feature feature
  | Click_close_error
  | Close_popup

fun fire :: "event \<Rightarrow> app \<Rightarrow> app option" where
  "fire (Click_search b) a =
     (if search_disabled (view a) then None
      else Some (rendered a (searchSegments_begin (view a)) (Suc (in_flight a))))"
| "fire (Settle r) a =
     (if in_flight a = 0 then None
      else Some (rendered a (searchSegments_settle r (view a)) (in_flight a - 1)))"
| "fire Click_clear a =
     (if clear_disabled (view a) then None
      else Some (rendered a (clearSegments (view a)) (in_flight a)))"
| "fire (Click_feature f) a =
     (case layer a of
        None \<Rightarrow> None
      | Some (shown, closed_over) \<Rightarrow>
          (if f \<in> set shown
           then Some (rendered a (onEachFeature_click closed_over f (view a)) (in_flight a))
           else None))"
| "fire Click_close_error a =
     (if errorMessage (view a) = '''' then None
      else Some (rendered a (closeErrorMessage (view a)) (in_flight a)))"
| "fire Close_popup a =
     (if truthy_id (selectedSegmentId (view a))
      then Some (rendered a (Popup_onClose (view a)) (in_flight a)) else None)"

fun run :: "event list \<Rightarrow> app \<Rightarrow> app option" where
  "run [] a = Some a"
| "run (e # es) a = (case fire e a of None \<Rightarrow> None | Some a' \<Rightarrow> run es a')"

text \<open>The facts that every reachable state satisfies, kept together for the induction.\<close>

definition app_inv :: "app \<Rightarrow> bool" where
  "app_inv a =
     (in_flight a = (if loading (view a) then 1 else 0)
      \<and> (loading (view a) \<longrightarrow> segments (view a) = [] \<and> errorMessage (view a) = '''')
      \<and> (errorMessage (view a) \<noteq> '''' \<longrightarrow> segments (view a) = [])
      \<and> (\<forall>i. selectedSegmentId (view a) = Some i
            \<longrightarrow> i \<in> feature_id ` set (segments (view a)))
      \<and> layer a = (if segments (view a) = [] then None else Some (segments (view a), None)))"

section \<open>The query as the service reads it\<close>

text \<open>
  The query text is split into words, quoted texts and single symbols; blanks and line
  feeds separate and are dropped.
\<close>

datatype token = Word string | Quoted string | Sym char

definition is_word_char :: "char \<Rightarrow> bool" where
  "is_word_char c =
     (c \<in> set ''abcdefghijklmnopqrstuvwxyzABCDEFGHIJKLMNOPQRSTUVWXYZ0123456789_'')"

function tokens :: "string \<Rightarrow> token list" where
  "tokens [] = []"
| "tokens (c # cs) =
     (if c = CHR '' '' \<or> c = CHR 0x0A then tokens cs
      else if c = CHR 0x22
        then Quoted (takeWhile (\<lambda>x. x \<noteq> CHR 0x22) cs)
               # tokens (drop 1 (dropWhile (\<lambda>x. x \<noteq> CHR 0x22) cs))
      else if is_word_char c
        then Word (c # takeWhile is_word_char cs) # tokens (dropWhile is_word_char cs)
      else Sym c # tokens cs)"
  by pat_completeness auto
termination
proof (relation "measure length")
  fix c :: char and cs :: string
  have "length (dropWhile (\<lambda>x. x \<noteq> CHR 0x22) cs) \<le> length cs"
    by (rule length_dropWhile_le)
  then show "(drop 1 (dropWhile (\<lambda>x. x \<noteq> CHR 0x22) cs), c # cs) \<in> measure length"
    by simp
  have "length (dropWhile is_word_char cs) \<le> length cs"
    by (rule length_dropWhile_le)
  then show "(dropWhile is_word_char cs, c # cs) \<in> measure length"
    by simp
qed simp_all

text \<open>
  The statements of the query language that the template uses. A query statement
  names a type of object (\<open>wr\<close>: ways and relations, \<open>way\<close>: ways), optionally the
  named set it reads from (\<open>way.segments\<close>), and filters: a tag key that must be
  present, a tag that must have a value, or an area of a named set the object must
  lie in. \<open>(a; b; ...)->.s\<close> is a union, \<open>(a; - b;)->.s\<close> a difference, \<open>q->.s\<close>
  stores a query, \<open>.s map_to_area\<close> turns the members of a set into areas, and
  \<open>.s out geom n\<close> prints at most \<open>n\<close> members of a set with their geometry.
\<close>

datatype object_type = Way_or_relation | Way_only

datatype tag_filter = Has_key string | Has_tag string string | In_area string

datatype query = Query object_type "string option" "tag_filter list"

datatype item = Select query | Map_to_area string

datatype statement =
    Union "item list" string
  | Difference item item string
  | Into query string
  | Out_geom string nat

function decimal :: "nat \<Rightarrow> string" where
  "decimal n =
     (if n < 10 then [''0123456789'' ! n]
      else decimal (n div 10) @ [''0123456789'' ! (n mod 10)])"
  by pat_completeness auto
termination
  by (relation "measure id") auto

declare decimal.simps [simp del]

fun type_word :: "object_type \<Rightarrow> string" where
  "type_word Way_or_relation = ''wr''"
| "type_word Way_only = ''way''"

fun filter_tokens :: "tag_filter \<Rightarrow> token list" where
  "filter_tokens (Has_key k) = [Sym (CHR ''[''), Quoted k, Sym (CHR '']'')]"
| "filter_tokens (Has_tag k v) =
     [Sym (CHR ''[''), Quoted k, Sym (CHR ''=''), Quoted v, Sym (CHR '']'')]"
| "filter_tokens (In_area s) =
     [Sym (CHR ''(''), Word ''area'', Sym (CHR ''.''), Word s, Sym (CHR '')'')]"

fun query_tokens :: "query \<Rightarrow> token list" where
  "query_tokens (Query t from_set fs) =
     Word (type_word t)
     # (case from_set of None \<Rightarrow> [] | Some s \<Rightarrow> [Sym (CHR ''.''), Word s])
     @ concat (map filter_tokens fs)"

fun item_tokens :: "item \<Rightarrow> token list" where
  "item_tokens (Select q) = query_tokens q"
| "item_tokens (Map_to_area s) = [Sym (CHR ''.''), Word s, Word ''map_to_area'']"

definition into_tokens :: "string \<Rightarrow> token list" where
  "into_tokens s =
     [Sym (CHR ''-''), Sym (CHR ''>''), Sym (CHR ''.''), Word s, Sym (CHR '';'')]"

fun statement_tokens :: "statement \<Rightarrow> token list" where
  "statement_tokens (Union is s) =
     Sym (CHR ''('') # concat (map (\<lambda>i. item_tokens i @ [Sym (CHR '';'')]) is)
     @ Sym (CHR '')'') # into_tokens s"
| "statement_tokens (Difference i j s) =
     Sym (CHR ''('') # item_tokens i @ [Sym (CHR '';''), Sym (CHR ''-'')] @ item_tokens j
     @ [Sym (CHR '';''), Sym (CHR '')'')] @ into_tokens s"
| "statement_tokens (Into q s) = query_tokens q @ into_tokens s"
| "statement_tokens (Out_geom s n) =
     [Sym (CHR ''.''), Word s, Word ''out'', Word ''geom'', Word (decimal n), Sym (CHR '';'')]"

text \<open>The settings that open a query, up to the numbers of the bounding box.\<close>

definition settings_tokens :: "string \<Rightarrow> nat \<Rightarrow> token list" where
  "settings_tokens fmt secs =
     [Sym (CHR ''[''), Word ''out'', Sym (CHR '':''), Word fmt, Sym (CHR '']''),
      Sym (CHR ''[''), Word ''timeout'', Sym (CHR '':''), Word (decimal secs), Sym (CHR '']''),
      Sym (CHR ''[''), Word ''bbox'', Sym (CHR '':'')]"

text \<open>
  What the statements mean. The service's data is not part of the program: the
  objects inside the bounding box, which of them are ways and relations, their tags,
  the area an object gives under \<open>map_to_area\<close> and whether an object lies in an
  area are parameters. Named sets are kept as lists.
\<close>

record 'o osm =
  objects :: "'o list"
  is_way :: "'o \<Rightarrow> bool"
  is_relation :: "'o \<Rightarrow> bool"
  tag :: "'o \<Rightarrow> string \<Rightarrow> string option"
  area_of :: "'o \<Rightarrow> 'o option"
  lies_in :: "'o \<Rightarrow> 'o \<Rightarrow> bool"

type_synonym 'o named_sets = "string \<Rightarrow> 'o list"

fun type_holds :: "'o osm \<Rightarrow> object_type \<Rightarrow> 'o \<Rightarrow> bool" where
  "type_holds d Way_or_relation x = (is_way d x \<or> is_relation d x)"
| "type_holds d Way_only x = is_way d x"

fun filter_holds :: "'o osm \<Rightarrow> 'o named_sets \<Rightarrow> 'o \<Rightarrow> tag_filter \<Rightarrow> bool" where
  "filter_holds d sets x (Has_key k) = (\<exists>v. tag d x k = Some v)"
| "filter_holds d sets x (Has_tag k v) = (tag d x k = Some v)"
| "filter_holds d sets x (In_area s) = list_ex (lies_in d x) (sets s)"

fun select :: "'o osm \<Rightarrow> 'o named_sets \<Rightarrow> query \<Rightarrow> 'o list" where
  "select d sets (Query t from_set fs) =
     filter (\<lambda>x. type_holds d t x \<and> list_all (filter_holds d sets x) fs)
       (case from_set of None \<Rightarrow> objects d | Some s \<Rightarrow> sets s)"

fun item_result :: "'o osm \<Rightarrow> 'o named_sets \<Rightarrow> item \<Rightarrow> 'o list" where
  "item_result d sets (Select q) = select d sets q"
| "item_result d sets (Map_to_area s) = List.map_filter (area_of d) (sets s)"

record 'o service =
  named :: "'o named_sets"
  printed :: "'o list option"

fun exec :: "'o osm \<Rightarrow> statement \<Rightarrow> 'o service \<Rightarrow> 'o service" where
  "exec d (Union is s) st =
     st\<lparr>named := (named st)(s := concat (map (item_result d (named st)) is))\<rparr>"
| "exec d (Difference i j s) st =
     st\<lparr>named := (named st)
           (s := filter (\<lambda>x. x \<notin> set (item_result d (named st) j))
                   (item_result d (named st) i))\<rparr>"
| "exec d (Into q s) st = st\<lparr>named := (named st)(s := select d (named st) q)\<rparr>"
| "exec d (Out_geom s n) st = st\<lparr>printed := Some (take n (named st s))\<rparr>"

definition execute :: "'o osm \<Rightarrow> statement list \<Rightarrow> 'o service" where
  "execute d prog = fold (exec d) prog \<lparr>named = (\<lambda>s. []), printed = None\<rparr>"

text \<open>The six statements the claim describes, in the order of the template.\<close>

definition leisure_areas :: statement where
  "leisure_areas =
     Union [Select (Query Way_or_relation None [Has_tag ''leisure'' ''park'']),
            Select (Query Way_or_relation None [Has_tag ''leisure'' ''track'']),
            Select (Query Way_or_relation None [Has_tag ''leisure'' ''nature_reserve''])]
       ''areas''"

definition as_areas :: statement where
  "as_areas = Union [Map_to_area ''areas''] ''areas''"

definition foot_ways :: statement where
  "foot_ways =
     Union [Select (Query Way_only None [Has_tag ''highway'' ''pedestrian'']),
            Select (Query Way_only None [Has_tag ''highway'' ''footpath'']),
            Select (Query Way_only None [Has_tag ''highway'' ''footway'']),
            Select (Query Way_only None [Has_key ''designated'']),
            Select (Query Way_only None [Has_key ''yes'']),
            Select (Query Way_only None [Has_tag ''foot'' ''use_sidepath''])]
       ''segments''"

definition without_private :: statement where
  "without_private =
     Difference (Select (Query Way_only (Some ''segments'') []))
       (Select (Query Way_only (Some ''segments'') [Has_tag ''access'' ''private'']))
       ''segments''"

definition within_areas :: statement where
  "within_areas = Into (Query Way_only (Some ''segments'') [In_area ''areas'']) ''segments''"

definition print_segments :: statement where
  "print_segments = Out_geom ''segments'' 100"

definition footpath_program :: "statement list" where
  "footpath_program =
     [leisure_areas, as_areas, foot_ways, without_private, within_areas, print_segments]"

section \<open>Sample data\<close>

definition two_elements :: "element list" where
  "two_elements =
     [\<lparr>elem_id = 1, elem_geometry = [\<lparr>lon = 2, lat = 3\<rparr>],
       elem_tags = [(''highway'', ''footway'')]\<rparr>,
      \<lparr>elem_id = 2, elem_geometry = [\<lparr>lon = 4, lat = 5\<rparr>, \<lparr>lon = 6, lat = 7\<rparr>],
       elem_tags = [(''highway'', ''pedestrian''), (''surface'', ''gravel'')]\<rparr>]"

definition two_paths :: "feature list" where
  "two_paths = map feature_of two_elements"

definition none_selected :: view_state where
  "none_selected =
     \<lparr>segments = two_paths, selectedSegmentId = None, loading = False, errorMessage = ''''\<rparr>"

definition second_selected :: view_state where
  "second_selected =
     \<lparr>segments = two_paths, selectedSegmentId = Some 2, loading = False, errorMessage = ''''\<rparr>"


definition showing :: "view_state \<Rightarrow> app" where
  "showing s = \<lparr>view = s, layer = Some (segments s, None), in_flight = 0\<rparr>"

definition new_york :: bounds where
  "new_york = \<lparr>south = 40, west = - 75, north = 41, east = - 74\<rparr>"

definition across_antimeridian :: bounds where
  "across_antimeridian = \<lparr>south = 40, west = - 190, north = 41, east = - 185\<rparr>"

definition two_worlds_west :: bounds where
  "two_worlds_west = \<lparr>south = 40, west = - 600, north = 41, east = - 599\<rparr>"

definition element_zero :: element where
  "element_zero =
     \<lparr>elem_id = 0, elem_geometry = [\<lparr>lon = 2, lat = 3\<rparr>],
      elem_tags = [(''highway'', ''footway'')]\<rparr>"

definition zero_selected :: view_state where
  "zero_selected =
     \<lparr>segments = [feature_of element_zero], selectedSegmentId = Some 0, loading = False,
      errorMessage = ''''\<rparr>"

definition small_park :: "nat osm" where
  "small_park =
     \<lparr>objects = [1, 2, 3, 4, 5],
      is_way = (\<lambda>x. True),
      is_relation = (\<lambda>x. False),
      tag = (\<lambda>x. map_of
               (if x = 1 then [(''leisure'', ''park'')]
                else if x = 2 then [(''highway'', ''footway'')]
                else if x = 3 then [(''highway'', ''footway''), (''access'', ''private'')]
                else if x = 4 then [(''highway'', ''footway'')]
                else [(''highway'', ''residential'')])),
      area_of = (\<lambda>x. if x = 1 then Some 10 else None),
      lies_in = (\<lambda>x a. a = 10 \<and> x \<in> {2, 3, 5})\<rparr>"

section \<open>Clearing\<close>

text \<open>
  Claim C9. After \<open>clearSegments\<close>, whatever the state before, the feature list is
  empty, no feature is selected and the error message is empty; the loading flag is
  the one of the state before.
\<close>

theorem clearSegments_result:
  "segments (clearSegments s) = []
   \<and> selectedSegmentId (clearSegments s) = None
   \<and> errorMessage (clearSegments s) = ''''
   \<and> loading (clearSegments s) = loading s"
  by (simp add: clearSegments_def)

section \<open>Facts about every reachable state\<close>

lemma app_inv_start: "app_inv App_start"
  by (simp add: app_inv_def App_start_def App_initial_def)

lemma app_inv_fire:
  assumes "app_inv a" and "fire e a = Some a'"
  shows "app_inv a'"
proof (cases e)
  case (Click_search b)
  with assms show ?thesis
    by (auto simp: app_inv_def rendered_def GeoJSON_layer_def search_disabled_def
        searchSegments_begin_def split: if_splits)
next
  case (Settle r)
  with assms show ?thesis
    by (cases r)
       (auto simp: app_inv_def rendered_def GeoJSON_layer_def searchSegments_settle_def
          split: if_splits)
next
  case Click_clear
  with assms show ?thesis
    by (auto simp: app_inv_def rendered_def GeoJSON_layer_def clear_disabled_def
        clearSegments_def split: if_splits)
next
  case (Click_feature f)
  with assms show ?thesis
    by (auto simp: app_inv_def rendered_def GeoJSON_layer_def onEachFeature_click_def
        split: if_splits option.splits)
next
  case Click_close_error
  with assms show ?thesis
    by (auto simp: app_inv_def rendered_def GeoJSON_layer_def closeErrorMessage_def
        split: if_splits)
next
  case Close_popup
  with assms show ?thesis
    by (auto simp: app_inv_def rendered_def GeoJSON_layer_def Popup_onClose_def
        split: if_splits)
qed

lemma app_inv_run: "app_inv a \<Longrightarrow> run es a = Some a' \<Longrightarrow> app_inv a'"
proof (induction es arbitrary: a)
  case Nil
  then show ?case by simp
next
  case (Cons e es)
  then obtain b where "fire e a = Some b" and "run es b = Some a'"
    by (auto split: option.splits)
  with Cons show ?case using app_inv_fire by blast
qed

lemma reachable_inv: "run es App_start = Some a \<Longrightarrow> app_inv a"
  using app_inv_run [OF app_inv_start] .

text \<open>
  While a request is pending the page offers nothing but its settling, so the two
  halves of \<open>searchSegments\<close> run back to back in every reachable run.
\<close>

lemma waiting_only_settles:
  assumes "run es App_start = Some a" and "loading (view a)" and "fire e a = Some a'"
  shows "\<exists>r. e = Settle r"
  using reachable_inv [OF assms(1)] assms(2,3)
  by (cases e) (auto simp: app_inv_def search_disabled_def clear_disabled_def truthy_id_def
      split: if_splits option.splits)

lemma at_most_one_in_flight: "run es App_start = Some a \<Longrightarrow> in_flight a \<le> 1"
  using reachable_inv [of es a] by (simp add: app_inv_def split: if_splits)

lemma search_enabled_no_selection:
  assumes "run es App_start = Some a" and "\<not> search_disabled (view a)"
  shows "selectedSegmentId (view a) = None"
proof (cases "selectedSegmentId (view a)")
  case None
  then show ?thesis .
next
  case (Some i)
  with reachable_inv [OF assms(1)] have "i \<in> feature_id ` set (segments (view a))"
    by (simp add: app_inv_def)
  with assms(2) show ?thesis by (auto simp: search_disabled_def)
qed

text \<open>
  The layer is built when the features arrive, and nothing is selected then: its
  click handlers have closed over \<open>null\<close> for as long as it is mounted.
\<close>

lemma layer_closed_over_null:
  assumes "run es App_start = Some a" and "layer a = Some (shown, closed_over)"
  shows "shown = segments (view a) \<and> closed_over = None"
  using reachable_inv [OF assms(1)] assms(2) by (auto simp: app_inv_def split: if_splits)

text \<open>So a click on a feature selects it, whatever was selected before.\<close>

lemma click_always_selects:
  assumes "run es App_start = Some a" and "fire (Click_feature f) a = Some a'"
  shows "selectedSegmentId (view a') = Some (feature_id f)"
proof -
  from assms(2) obtain shown closed_over where l: "layer a = Some (shown, closed_over)"
    by (auto split: option.splits)
  with layer_closed_over_null [OF assms(1)] have "closed_over = None" by simp
  with assms(2) l show ?thesis
    by (auto simp: rendered_def onEachFeature_click_def split: if_splits)
qed

text \<open>The message shown changes from empty to non-empty only when a request fails.\<close>

lemma error_only_from_failed_search:
  assumes "fire e a = Some a'" and "errorMessage (view a) = ''''"
    and "errorMessage (view a') \<noteq> ''''"
  shows "\<exists>code. e = Settle (Rejected code)"
  using assms
  by (cases e)
     (auto simp: rendered_def searchSegments_begin_def searchSegments_settle_def
        clearSegments_def closeErrorMessage_def onEachFeature_click_def Popup_onClose_def
        split: if_splits response.splits option.splits)

text \<open>
  The popup of a selected feature whose id is not 0: it stands at the first coordinate
  of the first segment with that id, latitude first, and carries that segment's tags.
\<close>

lemma Popup_render_selected:
  assumes "selectedSegmentId s = Some i" and "i \<noteq> 0"
    and "find (\<lambda>segment. Some (feature_id segment) = Some i) (segments s) = Some seg"
    and "coordinates (geometry seg) = c # cs"
  shows "Popup_render s
         = Inr (Some \<lparr>popup_position = (snd c, fst c), popup_content = properties seg\<rparr>)"
  using assms by (simp add: Popup_render_def truthy_id_def)

lemma Popup_render_reachable:
  assumes "run es App_start = Some a" and "selectedSegmentId (view a) = Some i" and "i \<noteq> 0"
  shows "\<exists>seg \<in> set (segments (view a)). feature_id seg = i
           \<and> Popup_render (view a)
               = (case coordinates (geometry seg) of
                    [] \<Rightarrow> Inl TypeError
                  | c # _ \<Rightarrow> Inr (Some \<lparr>popup_position = (snd c, fst c),
                                          popup_content = properties seg\<rparr>))"
proof -
  from reachable_inv [OF assms(1)] assms(2)
  have "i \<in> feature_id ` set (segments (view a))" by (simp add: app_inv_def)
  then have "\<exists>x \<in> set (segments (view a)). Some (feature_id x) = Some i" by auto
  then obtain seg where f: "find (\<lambda>segment. Some (feature_id segment) = Some i) (segments (view a)) = Some seg"
    by (cases "find (\<lambda>segment. Some (feature_id segment) = Some i) (segments (view a))")
       (auto simp: find_None_iff)
  then have "seg \<in> set (segments (view a))" and "feature_id seg = i"
    by (auto simp: find_Some_iff)
  moreover have "Popup_render (view a)
               = (case coordinates (geometry seg) of
                    [] \<Rightarrow> Inl TypeError
                  | c # _ \<Rightarrow> Inr (Some \<lparr>popup_position = (snd c, fst c),
                                          popup_content = properties seg\<rparr>))"
    using assms(2,3) f by (simp add: Popup_render_def truthy_id_def)
  ultimately show ?thesis by blast
qed

section \<open>A successful search\<close>

text \<open>
  What one whole successful call does to any view state: the search itself never
  touches the selection.
\<close>

lemma searchSegments_resolved:
  "searchSegments (Resolved els) s
     = s\<lparr>segments := map feature_of els, loading := False, errorMessage := ''''\<rparr>"
  by (simp add: searchSegments_def searchSegments_settle_def searchSegments_begin_def)



section \<open>Clicking a feature twice\<close>

text \<open>What the handler does with the selection it has closed over.\<close>

lemma onEachFeature_click_result:
  "onEachFeature_click closed_over f s
     = s\<lparr>selectedSegmentId :=
            (if closed_over = Some (feature_id f) then None else Some (feature_id f))\<rparr>"
  by (simp add: onEachFeature_click_def)

text \<open>
  Claim C2, on the page. After a search has shown two features and nothing is
  selected, a click on the feature with id 2 selects it, and a second click on it
  leaves it selected: the selection does not return to what it was.
\<close>

theorem click_twice_on_page:
  "run [Click_search new_york, Settle (Resolved two_elements)] App_start
     = Some (showing none_selected)
   \<and> selectedSegmentId none_selected = None
   \<and> feature_id (two_paths ! 1) = 2
   \<and> run [Click_feature (two_paths ! 1)] (showing none_selected)
       = Some (showing second_selected)
   \<and> run [Click_feature (two_paths ! 1), Click_feature (two_paths ! 1)]
         (showing none_selected)
       = Some (showing second_selected)
   \<and> selectedSegmentId second_selected = Some 2"
  by (simp add: App_start_def App_initial_def search_disabled_def rendered_def
      GeoJSON_layer_def searchSegments_begin_def searchSegments_settle_def
      onEachFeature_click_def showing_def none_selected_def second_selected_def
      two_paths_def two_elements_def feature_of_def)

section \<open>Longitudes below -180\<close>

text \<open>
  Claim C3, as amended. A west or east below -180 has 360 added before it is put into
  the query. The result lies in [-180, 180] when the longitude was at least -540;
  west = -190 gives 170.
\<close>

theorem searchSegments_bbox_wrap:
  "(west b < - 180 \<longrightarrow> west (searchSegments_bbox b) = west b + 360)
   \<and> (east b < - 180 \<longrightarrow> east (searchSegments_bbox b) = east b + 360)
   \<and> (- 540 \<le> west b \<and> west b < - 180 \<longrightarrow>
        - 180 \<le> west (searchSegments_bbox b) \<and> west (searchSegments_bbox b) \<le> 180)
   \<and> (- 540 \<le> east b \<and> east b < - 180 \<longrightarrow>
        - 180 \<le> east (searchSegments_bbox b) \<and> east (searchSegments_bbox b) \<le> 180)
   \<and> (west b = - 190 \<longrightarrow> west (searchSegments_bbox b) = 170)"
  by (simp add: searchSegments_bbox_def)

theorem searchSegments_bbox_wrap_witness:
  "- 540 \<le> west across_antimeridian \<and> west across_antimeridian < - 180
   \<and> - 540 \<le> east across_antimeridian \<and> east across_antimeridian < - 180
   \<and> west across_antimeridian = - 190
   \<and> west (searchSegments_bbox across_antimeridian) = 170
   \<and> east (searchSegments_bbox across_antimeridian) = 175"
  using searchSegments_bbox_wrap [of across_antimeridian]
  by (simp add: across_antimeridian_def)

text \<open>
  The claim as written fails for a view two turns of the globe to the west: a west of
  -600 is below -180, and what is put into the query is -240.
\<close>

theorem searchSegments_bbox_wrap_counterexample:
  "west two_worlds_west < - 180
   \<and> west (searchSegments_bbox two_worlds_west) = - 240
   \<and> \<not> (- 180 \<le> west (searchSegments_bbox two_worlds_west)
        \<and> west (searchSegments_bbox two_worlds_west) \<le> 180)"
  by (simp add: searchSegments_bbox_def two_worlds_west_def)

section \<open>From elements to features\<close>

text \<open>
  Claim C4. After a successful search there are as many features as the response has
  elements, in the same order; each has the id and the tags of its element, and its
  coordinates are the (lon, lat) pairs of the element's points, in their order.
\<close>

theorem searchSegments_features:
  "length (segments (searchSegments (Resolved els) s)) = length els
   \<and> (\<forall>i < length els.
        feature_id (segments (searchSegments (Resolved els) s) ! i) = elem_id (els ! i)
        \<and> properties (segments (searchSegments (Resolved els) s) ! i) = elem_tags (els ! i)
        \<and> coordinates (geometry (segments (searchSegments (Resolved els) s) ! i))
            = map (\<lambda>p. (lon p, lat p)) (elem_geometry (els ! i)))"
  by (simp add: searchSegments_def searchSegments_settle_def feature_of_def)

theorem searchSegments_features_witness:
  "(1::nat) < length two_elements
   \<and> length (segments (searchSegments (Resolved two_elements) App_initial)) = 2
   \<and> feature_id (segments (searchSegments (Resolved two_elements) App_initial) ! 1) = 2
   \<and> properties (segments (searchSegments (Resolved two_elements) App_initial) ! 1)
       = [(''highway'', ''pedestrian''), (''surface'', ''gravel'')]
   \<and> coordinates (geometry (segments (searchSegments (Resolved two_elements) App_initial) ! 1))
       = [(4, 5), (6, 7)]"
proof -
  have l: "(1::nat) < length two_elements" by (simp add: two_elements_def)
  from searchSegments_features [of two_elements App_initial] l
  have "feature_id (segments (searchSegments (Resolved two_elements) App_initial) ! 1)
          = elem_id (two_elements ! 1)
        \<and> properties (segments (searchSegments (Resolved two_elements) App_initial) ! 1)
          = elem_tags (two_elements ! 1)
        \<and> coordinates (geometry (segments (searchSegments (Resolved two_elements) App_initial) ! 1))
          = map (\<lambda>p. (lon p, lat p)) (elem_geometry (two_elements ! 1))"
    and "length (segments (searchSegments (Resolved two_elements) App_initial))
          = length two_elements"
    by blast+
  with l show ?thesis by (simp add: two_elements_def)
qed

section \<open>A failed search\<close>

text \<open>
  Claim C5. A search that fails shows one of two messages: the time-out message when
  the error carries the code of the request library's time-out, the general message
  for every other error. In both cases the features are those from before the search
  and the loading flag is false.
\<close>

theorem searchSegments_failure:
  "(code = Some ''ECONNABORTED'' \<longrightarrow>
      errorMessage (searchSegments (Rejected code) s)
        = ''Query timed out. Try reducing the search area.'')
   \<and> (code \<noteq> Some ''ECONNABORTED'' \<longrightarrow>
      errorMessage (searchSegments (Rejected code) s)
        = ''An error occurred while fetching the data.'')
   \<and> segments (searchSegments (Rejected code) s) = segments s
   \<and> loading (searchSegments (Rejected code) s) = False"
  by (simp add: searchSegments_def searchSegments_settle_def searchSegments_begin_def)

theorem searchSegments_failure_witness:
  "errorMessage (searchSegments (Rejected (Some ''ECONNABORTED'')) App_initial)
     = ''Query timed out. Try reducing the search area.''
   \<and> Some ''ERR_NETWORK'' \<noteq> Some ''ECONNABORTED''
   \<and> errorMessage (searchSegments (Rejected (Some ''ERR_NETWORK'')) App_initial)
     = ''An error occurred while fetching the data.''
   \<and> (None :: string option) \<noteq> Some ''ECONNABORTED''
   \<and> errorMessage (searchSegments (Rejected None) App_initial)
     = ''An error occurred while fetching the data.''"
  using searchSegments_failure [of "Some ''ECONNABORTED''" App_initial]
    searchSegments_failure [of "Some ''ERR_NETWORK''" App_initial]
    searchSegments_failure [of None App_initial]
  by simp

section \<open>The selected feature is one of the features\<close>

text \<open>
  Claim C6. In every state the page can reach, a selected id is the id of one of the
  features in the list.
\<close>

theorem selection_among_features:
  "run es App_start = Some a \<Longrightarrow> selectedSegmentId (view a) = Some i
   \<Longrightarrow> i \<in> feature_id ` set (segments (view a))"
  using reachable_inv [of es a] by (simp add: app_inv_def)

theorem selection_among_features_witness:
  "run [Click_search new_york, Settle (Resolved two_elements), Click_feature (two_paths ! 1)]
     App_start = Some (showing second_selected)
   \<and> selectedSegmentId (view (showing second_selected)) = Some 2
   \<and> 2 \<in> feature_id ` set (segments (view (showing second_selected)))"
proof -
  have r: "run [Click_search new_york, Settle (Resolved two_elements),
                Click_feature (two_paths ! 1)] App_start
           = Some (showing second_selected)"
    by (simp add: App_start_def App_initial_def search_disabled_def rendered_def
        GeoJSON_layer_def searchSegments_begin_def searchSegments_settle_def
        onEachFeature_click_def showing_def second_selected_def two_paths_def
        two_elements_def feature_of_def)
  have s: "selectedSegmentId (view (showing second_selected)) = Some 2"
    by (simp add: showing_def second_selected_def)
  from selection_among_features [OF r s] r s show ?thesis by simp
qed

section \<open>An error message is shown only without features\<close>

text \<open>
  Claim C10. In every state the page can reach, a non-empty error message goes with
  an empty feature list.
\<close>

theorem error_only_without_features:
  "run es App_start = Some a \<Longrightarrow> errorMessage (view a) \<noteq> '''' \<Longrightarrow> segments (view a) = []"
  using reachable_inv [of es a] by (simp add: app_inv_def)

theorem error_only_without_features_witness:
  "run [Click_search new_york, Settle (Rejected (Some ''ECONNABORTED''))] App_start
     = Some \<lparr>view = App_initial\<lparr>errorMessage :=
                 ''Query timed out. Try reducing the search area.''\<rparr>,
              layer = None, in_flight = 0\<rparr>
   \<and> errorMessage (App_initial\<lparr>errorMessage :=
                 ''Query timed out. Try reducing the search area.''\<rparr>) \<noteq> ''''
   \<and> segments (App_initial\<lparr>errorMessage :=
                 ''Query timed out. Try reducing the search area.''\<rparr>) = []"
proof -
  let ?v = "App_initial\<lparr>errorMessage := ''Query timed out. Try reducing the search area.''\<rparr>"
  have r: "run [Click_search new_york, Settle (Rejected (Some ''ECONNABORTED''))] App_start
           = Some \<lparr>view = ?v, layer = None, in_flight = 0\<rparr>"
    by (simp add: App_start_def App_initial_def search_disabled_def rendered_def
        GeoJSON_layer_def searchSegments_begin_def searchSegments_settle_def)
  have e: "errorMessage (view \<lparr>view = ?v, layer = None, in_flight = 0\<rparr>) \<noteq> ''''"
    by simp
  from error_only_without_features [OF r e] r e show ?thesis by simp
qed

section \<open>The popup of the selected feature\<close>

text \<open>
  Claim C8, at the id 0. The page reaches a state in which the feature with id 0 is
  selected and has a coordinate, and no popup is rendered in it.
\<close>

theorem Popup_render_id_zero:
  "run [Click_search new_york, Settle (Resolved [element_zero]),
        Click_feature (feature_of element_zero)] App_start
     = Some (showing zero_selected)
   \<and> selectedSegmentId zero_selected = Some 0
   \<and> find (\<lambda>segment. Some (feature_id segment) = selectedSegmentId zero_selected)
        (segments zero_selected) = Some (feature_of element_zero)
   \<and> coordinates (geometry (feature_of element_zero)) = [(2, 3)]
   \<and> Popup_render zero_selected = Inr None"
  by (simp add: App_start_def App_initial_def search_disabled_def rendered_def
      GeoJSON_layer_def searchSegments_begin_def searchSegments_settle_def
      onEachFeature_click_def showing_def zero_selected_def element_zero_def feature_of_def
      Popup_render_def truthy_id_def)

section \<open>The text of the query and what it asks for\<close>

lemma set_map_filter_eq:
  "set (List.map_filter f xs) = {y. \<exists>x \<in> set xs. f x = Some y}"
  by (induction xs) (auto split: option.splits)

text \<open>The query text, read as tokens, is the six statements after the settings.\<close>

lemma tokens_query_head: "tokens query_head = settings_tokens ''json'' 15"
  by (simp add: query_head_def settings_tokens_def is_word_char_def decimal.simps)

lemma tokens_query_rest: "tokens query_rest = concat (map statement_tokens footpath_program)"
  by (simp add: query_rest_def query_lines_def footpath_program_def leisure_areas_def
      as_areas_def foot_ways_def without_private_def within_areas_def print_segments_def
      into_tokens_def is_word_char_def decimal.simps)

text \<open>What the six statements leave in the named sets and print, for any data.\<close>

lemma execute_footpath_program:
  fixes d :: "'o osm"
  shows "set (named (execute d footpath_program) ''areas'')
           = {a. \<exists>x \<in> set (objects d).
                (is_way d x \<or> is_relation d x)
                \<and> (tag d x ''leisure'' = Some ''park'' \<or> tag d x ''leisure'' = Some ''track''
                     \<or> tag d x ''leisure'' = Some ''nature_reserve'')
                \<and> area_of d x = Some a}
         \<and> set (named (execute d footpath_program) ''segments'')
           = {w \<in> set (objects d).
                is_way d w
                \<and> (tag d w ''highway'' = Some ''pedestrian''
                     \<or> tag d w ''highway'' = Some ''footpath''
                     \<or> tag d w ''highway'' = Some ''footway''
                     \<or> (\<exists>v. tag d w ''designated'' = Some v)
                     \<or> (\<exists>v. tag d w ''yes'' = Some v)
                     \<or> tag d w ''foot'' = Some ''use_sidepath'')
                \<and> tag d w ''access'' \<noteq> Some ''private''
                \<and> (\<exists>a \<in> set (named (execute d footpath_program) ''areas''). lies_in d w a)}
         \<and> printed (execute d footpath_program)
           = Some (take 100 (named (execute d footpath_program) ''segments''))"
proof -
  define s0 :: "'o service" where "s0 = \<lparr>named = (\<lambda>s. []), printed = None\<rparr>"
  define s1 where "s1 = exec d leisure_areas s0"
  define s2 where "s2 = exec d as_areas s1"
  define s3 where "s3 = exec d foot_ways s2"
  define s4 where "s4 = exec d without_private s3"
  define s5 where "s5 = exec d within_areas s4"
  define s6 where "s6 = exec d print_segments s5"
  have run: "execute d footpath_program = s6"
    by (simp add: execute_def footpath_program_def s6_def s5_def s4_def s3_def s2_def s1_def
        s0_def)
  have a1: "set (named s1 ''areas'') = {x \<in> set (objects d).
             (is_way d x \<or> is_relation d x)
             \<and> (tag d x ''leisure'' = Some ''park'' \<or> tag d x ''leisure'' = Some ''track''
                  \<or> tag d x ''leisure'' = Some ''nature_reserve'')}"
    by (auto simp: s1_def s0_def leisure_areas_def)
  have a2: "named s2 ''areas'' = List.map_filter (area_of d) (named s1 ''areas'')"
    by (simp add: s2_def as_areas_def)
  have p3: "set (named s3 ''segments'') = {w \<in> set (objects d).
              is_way d w
              \<and> (tag d w ''highway'' = Some ''pedestrian'' \<or> tag d w ''highway'' = Some ''footpath''
                   \<or> tag d w ''highway'' = Some ''footway''
                   \<or> (\<exists>v. tag d w ''designated'' = Some v)
                   \<or> (\<exists>v. tag d w ''yes'' = Some v) \<or> tag d w ''foot'' = Some ''use_sidepath'')}"
    and a3: "named s3 ''areas'' = named s2 ''areas''"
    by (auto simp: s3_def foot_ways_def)
  have p4: "set (named s4 ''segments'')
              = {w \<in> set (named s3 ''segments''). is_way d w \<and> tag d w ''access'' \<noteq> Some ''private''}"
    and a4: "named s4 ''areas'' = named s3 ''areas''"
    by (auto simp: s4_def without_private_def)
  have p5: "set (named s5 ''segments'')
              = {w \<in> set (named s4 ''segments''). is_way d w
                   \<and> (\<exists>a \<in> set (named s4 ''areas''). lies_in d w a)}"
    and a5: "named s5 ''areas'' = named s4 ''areas''"
    by (auto simp: s5_def within_areas_def list_ex_iff)
  have n6: "named s6 = named s5" and o6: "printed s6 = Some (take 100 (named s5 ''segments''))"
    by (simp_all add: s6_def print_segments_def)
  have areas: "set (named s6 ''areas'') = {a. \<exists>x \<in> set (objects d).
             (is_way d x \<or> is_relation d x)
             \<and> (tag d x ''leisure'' = Some ''park'' \<or> tag d x ''leisure'' = Some ''track''
                  \<or> tag d x ''leisure'' = Some ''nature_reserve'')
             \<and> area_of d x = Some a}"
    unfolding n6 a5 a4 a3 a2 set_map_filter_eq a1 by blast
  have paths: "set (named s6 ''segments'') = {w \<in> set (objects d).
              is_way d w
              \<and> (tag d w ''highway'' = Some ''pedestrian'' \<or> tag d w ''highway'' = Some ''footpath''
                   \<or> tag d w ''highway'' = Some ''footway''
                   \<or> (\<exists>v. tag d w ''designated'' = Some v)
                   \<or> (\<exists>v. tag d w ''yes'' = Some v) \<or> tag d w ''foot'' = Some ''use_sidepath'')
              \<and> tag d w ''access'' \<noteq> Some ''private''
              \<and> (\<exists>a \<in> set (named s6 ''areas''). lies_in d w a)}"
    unfolding n6 p5 p4 p3 a5 by blast
  from areas paths o6 n6 show ?thesis unfolding run by simp
qed

text \<open>
  Claim C7. For every view the query is one fixed text around four numbers: south,
  west, north and east in that order, a west or east below -180 with 360 added and
  every other one as it is. The text before the numbers sets JSON output and a time
  limit of 15 on the server; the text after them is, token for token, six statements:
  the union of the ways and relations tagged leisure = park, track or nature_reserve,
  their conversion to areas, the union of the ways tagged highway = pedestrian,
  footpath or footway, or carrying a key designated, a key yes or foot = use_sidepath,
  the difference that removes the ways tagged access = private, the restriction of the
  remaining ways to those lying in one of the areas, and the output of their geometry
  with limit 100. Read with the meaning of these statements, the query prints at most
  100 of exactly those ways.
\<close>

theorem searchSegments_query_text:
  "searchSegments_query shw b
     = query_head @ shw (south b) @ '', ''
         @ shw (if west b < - 180 then west b + 360 else west b) @ '', ''
         @ shw (north b) @ '', ''
         @ shw (if east b < - 180 then east b + 360 else east b) @ ''];'' @ query_rest
   \<and> tokens query_head = settings_tokens ''json'' 15
   \<and> tokens query_rest = concat (map statement_tokens footpath_program)
   \<and> set (named (execute d footpath_program) ''areas'')
       = {a. \<exists>x \<in> set (objects d).
            (is_way d x \<or> is_relation d x)
            \<and> (tag d x ''leisure'' = Some ''park'' \<or> tag d x ''leisure'' = Some ''track''
                 \<or> tag d x ''leisure'' = Some ''nature_reserve'')
            \<and> area_of d x = Some a}
   \<and> set (named (execute d footpath_program) ''segments'')
       = {w \<in> set (objects d).
            is_way d w
            \<and> (tag d w ''highway'' = Some ''pedestrian''
                 \<or> tag d w ''highway'' = Some ''footpath''
                 \<or> tag d w ''highway'' = Some ''footway''
                 \<or> (\<exists>v. tag d w ''designated'' = Some v)
                 \<or> (\<exists>v. tag d w ''yes'' = Some v)
                 \<or> tag d w ''foot'' = Some ''use_sidepath'')
            \<and> tag d w ''access'' \<noteq> Some ''private''
            \<and> (\<exists>a \<in> set (named (execute d footpath_program) ''areas''). lies_in d w a)}
   \<and> printed (execute d footpath_program)
       = Some (take 100 (named (execute d footpath_program) ''segments''))"
proof -
  have "searchSegments_query shw b
     = query_head @ shw (south b) @ '', ''
         @ shw (if west b < - 180 then west b + 360 else west b) @ '', ''
         @ shw (north b) @ '', ''
         @ shw (if east b < - 180 then east b + 360 else east b) @ ''];'' @ query_rest"
    by (simp add: searchSegments_query_def Let_def searchSegments_bbox_def)
  with tokens_query_head tokens_query_rest execute_footpath_program [of d]
  show ?thesis by (intro conjI) blast+
qed

text \<open>
  The statements on a small map: a park (1) whose area is 10, a footway (2) and a
  private footway (3) inside it, a footway (4) outside it and a road (5) inside it.
  Only the footway 2 is printed.
\<close>

lemma execute_small_park: "printed (execute small_park footpath_program) = Some [2]"
  by (simp add: execute_def footpath_program_def leisure_areas_def as_areas_def
      foot_ways_def without_private_def within_areas_def print_segments_def
      small_park_def)

end
